theory Spec2Isabelle
  imports Main "HOL-Library.AList"
begin

section \<open>The session-addressed HTTP router of src/index.ts\<close>

text \<open>
  The development embeds \<^verbatim>\<open>getSessionIdHeader\<close>, \<^verbatim>\<open>ensureAcceptHeader\<close>,
  \<^verbatim>\<open>writeJsonError\<close>, \<^verbatim>\<open>createSessionState\<close>, \<^verbatim>\<open>handleHttpRequest\<close> and
  \<^verbatim>\<open>shutdown\<close> of \<^verbatim>\<open>src/index.ts\<close>. The MCP SDK objects (the \<^verbatim>\<open>McpServer\<close> and the
  \<^verbatim>\<open>StreamableHTTPServerTransport\<close> of a session) are external: what they answer is a
  parameter of the model (\<open>Env\<close>), and what the router asks of them is recorded in a log.
  One call of a function is one atomic step: the interleaving of several requests at the
  \<^verbatim>\<open>await\<close> points is not part of the model.
\<close>

subsection \<open>Requests\<close>

text \<open>
  A header of Node's \<^verbatim>\<open>IncomingMessage\<close> is \<^verbatim>\<open>string | string[] | undefined\<close>. Strings
  are lists of bytes; only ASCII letters are touched by \<open>toUpperCase\<close> (an HTTP method
  is an ASCII token).
\<close>

datatype headerValue = Undefined | Str string | Arr "string list"

record IncomingMessage =
  url :: "string option"
  httpMethod :: "string option"
  mcpSessionIdHeader :: headerValue
  acceptHeader :: "string option"

text \<open>JavaScript truthiness of a \<^verbatim>\<open>string | undefined\<close>: the empty string is falsy.\<close>

fun truthy :: "string option \<Rightarrow> string option" where
  "truthy None = None"
| "truthy (Some s) = (if s = [] then None else Some s)"

definition getSessionIdHeader :: "IncomingMessage \<Rightarrow> string option" where
  "getSessionIdHeader req =
     (case mcpSessionIdHeader req of
        Arr [] \<Rightarrow> None
      | Arr (v # _) \<Rightarrow> Some v
      | Str v \<Rightarrow> Some v
      | Undefined \<Rightarrow> None)"

fun includes_str :: "string \<Rightarrow> string \<Rightarrow> bool" where
  "includes_str [] sub = (sub = [])"
| "includes_str (c # cs) sub = (take (length sub) (c # cs) = sub \<or> includes_str cs sub)"

definition ensureAcceptHeader :: "IncomingMessage \<Rightarrow> IncomingMessage" where
  "ensureAcceptHeader req =
     (case truthy (acceptHeader req) of
        None \<Rightarrow> req\<lparr>acceptHeader := Some ''application/json, text/event-stream''\<rparr>
      | Some a \<Rightarrow>
          if \<not> includes_str a ''application/json'' \<or> \<not> includes_str a ''text/event-stream''
          then req\<lparr>acceptHeader := Some ''application/json, text/event-stream''\<rparr>
          else req)"

definition toUpperChar :: "char \<Rightarrow> char" where
  "toUpperChar c =
     (case map_of (zip ''abcdefghijklmnopqrstuvwxyz'' ''ABCDEFGHIJKLMNOPQRSTUVWXYZ'') c of
        None \<Rightarrow> c
      | Some u \<Rightarrow> u)"

definition toUpperCase :: "string \<Rightarrow> string" where
  "toUpperCase s = map toUpperChar s"

text \<open>\<^verbatim>\<open>(req.url ?? "/").split("?")[0]\<close>: the part of the URL before the first question mark.\<close>

definition requestPath :: "IncomingMessage \<Rightarrow> string" where
  "requestPath req =
     takeWhile (\<lambda>c. c \<noteq> CHR ''?'') (case url req of None \<Rightarrow> ''/'' | Some u \<Rightarrow> u)"

text \<open>\<^verbatim>\<open>(req.method ?? "GET").toUpperCase()\<close>\<close>

definition requestMethod :: "IncomingMessage \<Rightarrow> string" where
  "requestMethod req = toUpperCase (case httpMethod req of None \<Rightarrow> ''GET'' | Some m \<Rightarrow> m)"

subsection \<open>Responses\<close>

text \<open>
  A \<^verbatim>\<open>ServerResponse\<close> is the status code, the headers set so far, the chunks handed to
  \<^verbatim>\<open>res.end\<close>, and the two flags the code depends on. A chunk is a plain string or the
  \<^verbatim>\<open>JSON.stringify\<close> of a value, kept as the value.
\<close>

datatype json = JNull | JNumber int | JString string | JObject "(string \<times> json) list"

datatype chunk = Plain string | Stringified json

record ServerResponse =
  headersSent :: bool
  statusCode :: int
  resHeaders :: "(string \<times> string) list"
  written :: "chunk list"
  writableEnded :: bool

definition setHeader :: "string \<Rightarrow> string \<Rightarrow> ServerResponse \<Rightarrow> ServerResponse" where
  "setHeader name v res = res\<lparr>resHeaders := AList.update name v (resHeaders res)\<rparr>"

definition endWith :: "chunk \<Rightarrow> ServerResponse \<Rightarrow> ServerResponse" where
  "endWith c res = res\<lparr>headersSent := True, written := written res @ [c], writableEnded := True\<rparr>"

definition jsonRpcError :: "int \<Rightarrow> string \<Rightarrow> json" where
  "jsonRpcError code message =
     JObject [(''jsonrpc'', JString ''2.0''),
              (''error'', JObject [(''code'', JNumber code), (''message'', JString message)]),
              (''id'', JNull)]"

definition writeJsonError :: "ServerResponse \<Rightarrow> int \<Rightarrow> int \<Rightarrow> string \<Rightarrow> ServerResponse" where
  "writeJsonError res sc code message =
     (if headersSent res then res
      else endWith (Stringified (jsonRpcError code message))
             (setHeader ''content-type'' ''application/json'' (res\<lparr>statusCode := sc\<rparr>)))"

subsection \<open>Sessions, the environment and the process state\<close>

text \<open>
  A \<^verbatim>\<open>SessionState\<close> is an object \<^verbatim>\<open>{server, transport}\<close>; it is modelled by its identity,
  the number of sessions constructed before it. \<^verbatim>\<open>activeSessions\<close> is a JavaScript
  \<^verbatim>\<open>Map\<close>, which keeps insertion order: an association list.
\<close>

type_synonym SessionState = nat

datatype teardown = TransportClose SessionState | ServerClose SessionState | StdioServerClose

record Outcome =
  threw :: bool
  resAfter :: ServerResponse
  transportSessionId :: "string option"

text \<open>
  \<open>handleRequest env state req res\<close> is what \<^verbatim>\<open>state.transport.handleRequest(req, res)\<close>
  does: it throws or returns, leaves the response as \<open>resAfter\<close>, and leaves
  \<^verbatim>\<open>state.transport.sessionId\<close> as \<open>transportSessionId\<close>. \<open>closeRejects env log c\<close> tells
  whether the close call \<open>c\<close>, made after the calls of \<open>log\<close>, rejects.

  \<open>httpClose\<close> is what becomes of \<^verbatim>\<open>activeHttpServer.close(callback)\<close>: the callback is
  called with an error, or it is called without one, or it is not called (Node calls it
  once every connection has ended, so while a connection stays open the promise that
  \<^verbatim>\<open>shutdown\<close> awaits stays pending).

  \<open>serverCloseClosesTransport\<close> tells whether \<^verbatim>\<open>server.close()\<close> of the SDK's
  \<^verbatim>\<open>McpServer\<close> closes the transport that \<^verbatim>\<open>server.connect(transport)\<close> connected it to.
  The SDK is not part of the sources, so this is a parameter.
\<close>

datatype closeOutcome = CloseError | CloseCompleted | ClosePending

record Env =
  handleRequest :: "SessionState \<Rightarrow> IncomingMessage \<Rightarrow> ServerResponse \<Rightarrow> Outcome"
  closeRejects :: "teardown list \<Rightarrow> teardown \<Rightarrow> bool"
  httpClose :: closeOutcome
  serverCloseClosesTransport :: bool

record Process =
  activeSessions :: "(string \<times> SessionState) list"
  sessionsCreated :: nat
  teardownLog :: "teardown list"
  activeHttpServer :: bool
  activeStdioServer :: bool

definition Map_has :: "(string \<times> SessionState) list \<Rightarrow> string \<Rightarrow> bool" where
  "Map_has m k = (map_of m k \<noteq> None)"

definition Map_get :: "(string \<times> SessionState) list \<Rightarrow> string \<Rightarrow> SessionState option" where
  "Map_get m k = map_of m k"

definition Map_set ::
  "string \<Rightarrow> SessionState \<Rightarrow> (string \<times> SessionState) list \<Rightarrow> (string \<times> SessionState) list" where
  "Map_set k v m = AList.update k v m"

definition Map_delete :: "string \<Rightarrow> (string \<times> SessionState) list \<Rightarrow> (string \<times> SessionState) list" where
  "Map_delete k m = AList.delete k m"

text \<open>
  \<^verbatim>\<open>createSessionState\<close> builds a server and a transport and connects them; the
  construction is taken to succeed, and the new object is the next identity.
\<close>

definition createSessionState :: "Process \<Rightarrow> SessionState \<times> Process" where
  "createSessionState st = (sessionsCreated st, st\<lparr>sessionsCreated := Suc (sessionsCreated st)\<rparr>)"

text \<open>
  An awaited close call: it is logged, and it rejects (\<open>Inl\<close>) or resolves (\<open>Inr\<close>).
  \<open>closeQuietly\<close> is the call followed by \<^verbatim>\<open>.catch(() => undefined)\<close>.
\<close>

definition awaitClose :: "Env \<Rightarrow> teardown \<Rightarrow> Process \<Rightarrow> Process + Process" where
  "awaitClose env c st =
     (let st' = st\<lparr>teardownLog := teardownLog st @ [c]\<rparr>
      in if closeRejects env (teardownLog st) c then Inl st' else Inr st')"

definition closeQuietly :: "Env \<Rightarrow> teardown \<Rightarrow> Process \<Rightarrow> Process" where
  "closeQuietly env c st = (case awaitClose env c st of Inl st' \<Rightarrow> st' | Inr st' \<Rightarrow> st')"

subsection \<open>handleHttpRequest\<close>

text \<open>
  The body of the \<^verbatim>\<open>try\<close> block after \<^verbatim>\<open>handleRequest\<close> has returned: \<open>Inl\<close> is the
  process state at the point where an awaited close rejected, \<open>Inr\<close> the state at the end
  of the block.
\<close>

definition afterHandle ::
  "Env \<Rightarrow> Process \<Rightarrow> string \<Rightarrow> string option \<Rightarrow> SessionState \<Rightarrow> bool \<Rightarrow> string option
     \<Rightarrow> Process + Process" where
  "afterHandle env st method sessionId state createdForRequest establishedSessionId =
     (let st1 =
        (case truthy establishedSessionId of
           Some e \<Rightarrow>
             if \<not> Map_has (activeSessions st) e
             then st\<lparr>activeSessions := Map_set e state (activeSessions st)\<rparr>
             else st
         | None \<Rightarrow> st)
      in case (if createdForRequest \<and> truthy establishedSessionId = None
               then (case awaitClose env (TransportClose state) st1 of
                       Inl s \<Rightarrow> Inl s
                     | Inr s \<Rightarrow> awaitClose env (ServerClose state) s)
               else Inr st1) of
           Inl s \<Rightarrow> Inl s
         | Inr st2 \<Rightarrow>
             (case truthy sessionId of
                Some sid \<Rightarrow>
                  if method = ''DELETE''
                  then awaitClose env (ServerClose state)
                         (st2\<lparr>activeSessions := Map_delete sid (activeSessions st2)\<rparr>)
                  else Inr st2
              | None \<Rightarrow> Inr st2))"

text \<open>The \<^verbatim>\<open>catch\<close> block; \<^verbatim>\<open>console.error\<close> is not modelled.\<close>

definition catchBlock ::
  "Env \<Rightarrow> Process \<Rightarrow> SessionState \<Rightarrow> bool \<Rightarrow> ServerResponse \<Rightarrow> Process \<times> ServerResponse" where
  "catchBlock env st state createdForRequest res =
     (let st1 = (if createdForRequest
                 then closeQuietly env (ServerClose state)
                        (closeQuietly env (TransportClose state) st)
                 else st)
      in (st1, writeJsonError res 500 (- 32603) ''Internal server error''))"

text \<open>The \<^verbatim>\<open>try\<close>/\<^verbatim>\<open>catch\<close> statement.\<close>

definition tryForward ::
  "Env \<Rightarrow> Process \<Rightarrow> IncomingMessage \<Rightarrow> ServerResponse \<Rightarrow> string \<Rightarrow> string option
     \<Rightarrow> SessionState \<Rightarrow> bool \<Rightarrow> Process \<times> ServerResponse" where
  "tryForward env st req res method sessionId state createdForRequest =
     (let out = handleRequest env state req res
      in if threw out then catchBlock env st state createdForRequest (resAfter out)
         else (case afterHandle env st method sessionId state createdForRequest
                      (transportSessionId out) of
                 Inl s \<Rightarrow> catchBlock env s state createdForRequest (resAfter out)
               | Inr s \<Rightarrow> (s, resAfter out)))"

definition handleHttpRequest ::
  "Env \<Rightarrow> Process \<Rightarrow> IncomingMessage \<Rightarrow> ServerResponse \<Rightarrow> Process \<times> ServerResponse" where
  "handleHttpRequest env st req0 res =
     (if requestPath req0 \<noteq> ''/mcp''
      then (st, endWith (Plain ''Not found'') (res\<lparr>statusCode := 404\<rparr>))
      else
        let req = ensureAcceptHeader req0;
            method = requestMethod req;
            sessionId = getSessionIdHeader req
        in case truthy sessionId of
             Some sid \<Rightarrow>
               (case Map_get (activeSessions st) sid of
                  None \<Rightarrow> (st, writeJsonError res 404 (- 32001) ''Session not found'')
                | Some state \<Rightarrow> tryForward env st req res method sessionId state False)
           | None \<Rightarrow>
               if method = ''POST''
               then (case createSessionState st of
                       (state, st1) \<Rightarrow> tryForward env st1 req res method sessionId state True)
               else (st, writeJsonError res 400 (- 32000)
                           ''Bad Request: Mcp-Session-Id header is required''))"

subsection \<open>shutdown\<close>

text \<open>
  The loop over \<^verbatim>\<open>activeSessions\<close>. Its body removes only the entry it is visiting, so
  the iterator visits the entries present at the start, in insertion order.
\<close>

fun drainSessions :: "Env \<Rightarrow> (string \<times> SessionState) list \<Rightarrow> Process \<Rightarrow> Process" where
  "drainSessions env [] st = st"
| "drainSessions env ((sessionId, state) # rest) st =
     drainSessions env rest
       (closeQuietly env (ServerClose state)
          (closeQuietly env (TransportClose state)
             (st\<lparr>activeSessions := Map_delete sessionId (activeSessions st)\<rparr>)))"

text \<open>
  \<open>Rejected\<close>: the promise of \<^verbatim>\<open>shutdown\<close> rejected with the error of
  \<^verbatim>\<open>activeHttpServer.close\<close>, and nothing after that statement ran. \<open>Pending\<close>: the
  callback of \<^verbatim>\<open>activeHttpServer.close\<close> has not been called, and \<^verbatim>\<open>shutdown\<close> is still at
  its first \<^verbatim>\<open>await\<close>. \<open>Exited n\<close>: \<^verbatim>\<open>process.exit(n)\<close> was reached.
\<close>

datatype ending = Rejected | Pending | Exited int

definition shutdown :: "Env \<Rightarrow> Process \<Rightarrow> Process \<times> ending" where
  "shutdown env st =
     (if activeHttpServer st \<and> httpClose env = CloseError then (st, Rejected)
      else if activeHttpServer st \<and> httpClose env = ClosePending then (st, Pending)
      else
        let st1 = drainSessions env (activeSessions st) st;
            st2 = (if activeStdioServer st1 then closeQuietly env StdioServerClose st1 else st1)
        in (st2, Exited 0))"

subsection \<open>Teardown of a session and reachable process states\<close>

text \<open>The two calls that tear a session down, as \<^verbatim>\<open>shutdown\<close> and the \<^verbatim>\<open>catch\<close> block make them.\<close>

definition sessionTeardown :: "SessionState \<Rightarrow> teardown list" where
  "sessionTeardown state = [TransportClose state, ServerClose state]"

text \<open>
  What a log of close calls has released. The handler of a session is released by its
  \<^verbatim>\<open>server.close()\<close>. The transport is released by its \<^verbatim>\<open>transport.close()\<close>, and by the
  \<^verbatim>\<open>server.close()\<close> of the server connected to it when the SDK's close does that.
\<close>

definition handlerClosed :: "teardown list \<Rightarrow> SessionState \<Rightarrow> bool" where
  "handlerClosed log state = (ServerClose state \<in> set log)"

definition transportClosed :: "Env \<Rightarrow> teardown list \<Rightarrow> SessionState \<Rightarrow> bool" where
  "transportClosed env log state =
     (TransportClose state \<in> set log \<or>
      (serverCloseClosesTransport env \<and> ServerClose state \<in> set log))"

text \<open>
  The process starts with an empty \<^verbatim>\<open>activeSessions\<close>; the only function that changes it
  before \<^verbatim>\<open>shutdown\<close> is \<^verbatim>\<open>handleHttpRequest\<close>.
\<close>

definition initialProcess :: "bool \<Rightarrow> bool \<Rightarrow> Process" where
  "initialProcess http stdio =
     \<lparr>activeSessions = [], sessionsCreated = 0, teardownLog = [],
      activeHttpServer = http, activeStdioServer = stdio\<rparr>"

inductive reachable :: "Process \<Rightarrow> bool" where
  start: "reachable (initialProcess http stdio)"
| request: "reachable st \<Longrightarrow> reachable (fst (handleHttpRequest env st req res))"

subsection \<open>Concrete inputs\<close>

definition freshResponse :: ServerResponse where
  "freshResponse =
     \<lparr>headersSent = False, statusCode = 200, resHeaders = [], written = [], writableEnded = False\<rparr>"

definition startedResponse :: ServerResponse where
  "startedResponse = freshResponse\<lparr>headersSent := True, written := [Plain ''partial'']\<rparr>"

definition oneSession :: Process where
  "oneSession =
     \<lparr>activeSessions = [(''s1'', 0)], sessionsCreated = 1, teardownLog = [],
      activeHttpServer = True, activeStdioServer = False\<rparr>"

definition twoSessions :: Process where
  "twoSessions =
     \<lparr>activeSessions = [(''s1'', 0), (''s2'', 1)], sessionsCreated = 2, teardownLog = [],
      activeHttpServer = True, activeStdioServer = True\<rparr>"

text \<open>One session registered under two ids.\<close>

definition sharedSession :: Process where
  "sharedSession =
     \<lparr>activeSessions = [(''s1'', 0), (''s9'', 0)], sessionsCreated = 1, teardownLog = [],
      activeHttpServer = True, activeStdioServer = False\<rparr>"

definition request :: "string \<Rightarrow> string \<Rightarrow> headerValue \<Rightarrow> IncomingMessage" where
  "request u m h = \<lparr>url = Some u, httpMethod = Some m, mcpSessionIdHeader = h, acceptHeader = None\<rparr>"

definition deleteRequest :: IncomingMessage where
  "deleteRequest = request ''/mcp?x=1'' ''delete'' (Str ''s1'')"

definition getRequest :: IncomingMessage where
  "getRequest = request ''/mcp'' ''GET'' (Str ''s1'')"

definition getWithoutId :: IncomingMessage where
  "getWithoutId = request ''/mcp'' ''GET'' Undefined"

definition postRequest :: IncomingMessage where
  "postRequest = request ''/mcp'' ''POST'' (Arr [])"

definition healthRequest :: IncomingMessage where
  "healthRequest = request ''/health'' ''GET'' Undefined"

definition healthWithId :: IncomingMessage where
  "healthWithId = request ''/health'' ''GET'' (Str ''s1'')"

text \<open>A transport that answers and leaves \<^verbatim>\<open>sessionId\<close> as given, and one that throws.\<close>

definition answered :: "string option \<Rightarrow> Outcome" where
  "answered sid =
     \<lparr>threw = False, resAfter = endWith (Plain ''ok'') freshResponse, transportSessionId = sid\<rparr>"

definition faulted :: "ServerResponse \<Rightarrow> Outcome" where
  "faulted res = \<lparr>threw = True, resAfter = res, transportSessionId = None\<rparr>"

fun constOutcome :: "Outcome \<Rightarrow> SessionState \<Rightarrow> IncomingMessage \<Rightarrow> ServerResponse \<Rightarrow> Outcome" where
  "constOutcome out state req res = out"

fun constReject :: "bool \<Rightarrow> teardown list \<Rightarrow> teardown \<Rightarrow> bool" where
  "constReject b log c = b"

text \<open>
  An environment whose transport always answers \<open>out\<close>, whose close calls all reject or
  all resolve, and whose \<^verbatim>\<open>server.close()\<close> closes the connected transport.
\<close>

definition environment :: "Outcome \<Rightarrow> bool \<Rightarrow> closeOutcome \<Rightarrow> Env" where
  "environment out rejects closing =
     \<lparr>handleRequest = constOutcome out, closeRejects = constReject rejects, httpClose = closing,
      serverCloseClosesTransport = True\<rparr>"

section \<open>Properties\<close>

subsection \<open>The cases of the router\<close>

lemma ensureAcceptHeader_keeps [simp]:
  "mcpSessionIdHeader (ensureAcceptHeader req) = mcpSessionIdHeader req"
  "url (ensureAcceptHeader req) = url req"
  "httpMethod (ensureAcceptHeader req) = httpMethod req"
  by (simp_all add: ensureAcceptHeader_def split: option.splits)

lemma ensureAcceptHeader_derived [simp]:
  "getSessionIdHeader (ensureAcceptHeader req) = getSessionIdHeader req"
  "requestMethod (ensureAcceptHeader req) = requestMethod req"
  "requestPath (ensureAcceptHeader req) = requestPath req"
  by (simp_all add: requestMethod_def requestPath_def getSessionIdHeader_def)

lemma handle_known:
  assumes "requestPath req = ''/mcp''" "truthy (getSessionIdHeader req) = Some sid"
    "Map_get (activeSessions st) sid = Some state"
  shows "handleHttpRequest env st req res =
     tryForward env st (ensureAcceptHeader req) res (requestMethod req) (getSessionIdHeader req) state False"
  using assms by (simp add: handleHttpRequest_def Let_def)

lemma handle_unknown:
  assumes "requestPath req = ''/mcp''" "truthy (getSessionIdHeader req) = Some sid"
    "Map_get (activeSessions st) sid = None"
  shows "handleHttpRequest env st req res = (st, writeJsonError res 404 (- 32001) ''Session not found'')"
  using assms by (simp add: handleHttpRequest_def Let_def)

lemma handle_create:
  assumes "requestPath req = ''/mcp''" "truthy (getSessionIdHeader req) = None"
    "requestMethod req = ''POST''"
  shows "handleHttpRequest env st req res =
     tryForward env (st\<lparr>sessionsCreated := Suc (sessionsCreated st)\<rparr>) (ensureAcceptHeader req) res
        ''POST'' (getSessionIdHeader req) (sessionsCreated st) True"
  using assms by (simp add: handleHttpRequest_def Let_def createSessionState_def)

lemma handle_missing:
  assumes "requestPath req = ''/mcp''" "truthy (getSessionIdHeader req) = None"
    "requestMethod req \<noteq> ''POST''"
  shows "handleHttpRequest env st req res =
     (st, writeJsonError res 400 (- 32000) ''Bad Request: Mcp-Session-Id header is required'')"
  using assms by (simp add: handleHttpRequest_def Let_def)

lemma awaitClose_cases:
  "awaitClose env c st = Inl (st\<lparr>teardownLog := teardownLog st @ [c]\<rparr>) \<or>
   awaitClose env c st = Inr (st\<lparr>teardownLog := teardownLog st @ [c]\<rparr>)"
  by (simp add: awaitClose_def Let_def)

lemma closeQuietly_eq [simp]:
  "closeQuietly env c st = st\<lparr>teardownLog := teardownLog st @ [c]\<rparr>"
  by (simp add: closeQuietly_def awaitClose_def Let_def)

lemma tryForward_threw:
  assumes "threw (handleRequest env state req res)"
  shows "tryForward env st req res method sessionId state created =
     (if created then st\<lparr>teardownLog := teardownLog st @ [TransportClose state, ServerClose state]\<rparr> else st,
      writeJsonError (resAfter (handleRequest env state req res)) 500 (- 32603) ''Internal server error'')"
  using assms by (simp add: tryForward_def catchBlock_def Let_def)

lemma writeJsonError_fresh:
  "\<not> headersSent res \<Longrightarrow>
     statusCode (writeJsonError res sc code message) = sc \<and>
     written (writeJsonError res sc code message) =
       written res @ [Stringified (jsonRpcError code message)]"
  by (simp add: writeJsonError_def endWith_def setHeader_def)

lemma writeJsonError_sent: "headersSent res \<Longrightarrow> writeJsonError res sc code message = res"
  by (simp add: writeJsonError_def)

lemma afterHandle_delete:
  "afterHandle env st method (Some sid) state False e = r \<Longrightarrow> sid \<noteq> [] \<Longrightarrow> method = ''DELETE'' \<Longrightarrow>
   (\<exists>s. (r = Inl s \<or> r = Inr s) \<and> teardownLog s = teardownLog st @ [ServerClose state] \<and>
     sessionsCreated s = sessionsCreated st \<and> Map_get (activeSessions s) sid = None)"
  by (auto simp add: afterHandle_def awaitClose_def Let_def Map_get_def Map_delete_def Map_set_def delete_conv'
      split: option.splits if_splits)

subsection \<open>How a request changes the table\<close>


lemmas inputs = freshResponse_def startedResponse_def oneSession_def twoSessions_def
  sharedSession_def request_def deleteRequest_def getRequest_def getWithoutId_def postRequest_def
  healthRequest_def healthWithId_def
  answered_def faulted_def environment_def initialProcess_def

lemmas router = handleHttpRequest_def tryForward_def afterHandle_def catchBlock_def awaitClose_def
  closeQuietly_def ensureAcceptHeader_def createSessionState_def requestPath_def requestMethod_def
  toUpperCase_def toUpperChar_def getSessionIdHeader_def Map_get_def Map_has_def Map_delete_def
  Map_set_def writeJsonError_def endWith_def setHeader_def Let_def


lemma truthy_Some: "truthy x = Some sid \<Longrightarrow> x = Some sid \<and> sid \<noteq> []"
  by (cases x) (simp_all split: if_splits)

text \<open>What the try block does to the table, whatever the request.\<close>

lemma afterHandle_table:
  assumes "afterHandle env st method sessionId state created e = Inl s' \<or>
           afterHandle env st method sessionId state created e = Inr s'"
  shows "activeSessions s' = activeSessions st \<or>
         (\<exists>k. truthy e = Some k \<and> \<not> Map_has (activeSessions st) k \<and>
              activeSessions s' = Map_set k state (activeSessions st)) \<or>
         (\<exists>sid. truthy sessionId = Some sid \<and> method = ''DELETE'' \<and>
              (activeSessions s' = Map_delete sid (activeSessions st) \<or>
               (\<exists>k. truthy e = Some k \<and> \<not> Map_has (activeSessions st) k \<and>
                  activeSessions s' = Map_delete sid (Map_set k state (activeSessions st)))))"
  using assms
  by (auto simp add: afterHandle_def awaitClose_def Let_def split: option.splits if_splits sum.splits)

lemma catchBlock_table [simp]:
  "activeSessions (fst (catchBlock env st state created res)) = activeSessions st"
  by (simp add: catchBlock_def Let_def)

lemma tryForward_table:
  "activeSessions (fst (tryForward env st req res method sessionId state created)) = activeSessions st \<or>
   (\<not> threw (handleRequest env state req res) \<and>
    (\<exists>k. k \<noteq> [] \<and> transportSessionId (handleRequest env state req res) = Some k \<and>
         \<not> Map_has (activeSessions st) k \<and>
         (activeSessions (fst (tryForward env st req res method sessionId state created))
            = Map_set k state (activeSessions st) \<or>
          (\<exists>sid. truthy sessionId = Some sid \<and> method = ''DELETE'' \<and>
             activeSessions (fst (tryForward env st req res method sessionId state created))
               = Map_delete sid (Map_set k state (activeSessions st)))))) \<or>
   (\<exists>sid. truthy sessionId = Some sid \<and> method = ''DELETE'' \<and>
      activeSessions (fst (tryForward env st req res method sessionId state created))
        = Map_delete sid (activeSessions st))"
proof (cases "threw (handleRequest env state req res)")
  case True
  then show ?thesis by (simp add: tryForward_def Let_def)
next
  case False
  let ?e = "transportSessionId (handleRequest env state req res)"
  obtain s' where s': "afterHandle env st method sessionId state created ?e = Inl s' \<or>
           afterHandle env st method sessionId state created ?e = Inr s'"
    by (cases "afterHandle env st method sessionId state created ?e") auto
  have "activeSessions (fst (tryForward env st req res method sessionId state created)) = activeSessions s'"
    using s' False by (auto simp add: tryForward_def Let_def)
  then show ?thesis using afterHandle_table[OF s'] False by (auto dest!: truthy_Some)
qed

lemma handle_table:
  "activeSessions (fst (handleHttpRequest env st req res)) = activeSessions st \<or>
   (\<exists>k state. k \<noteq> [] \<and> \<not> threw (handleRequest env state (ensureAcceptHeader req) res) \<and>
       transportSessionId (handleRequest env state (ensureAcceptHeader req) res) = Some k \<and>
       \<not> Map_has (activeSessions st) k \<and>
       (activeSessions (fst (handleHttpRequest env st req res)) = Map_set k state (activeSessions st) \<or>
        (\<exists>sid. truthy (getSessionIdHeader req) = Some sid \<and> requestMethod req = ''DELETE'' \<and>
           activeSessions (fst (handleHttpRequest env st req res))
             = Map_delete sid (Map_set k state (activeSessions st))))) \<or>
   (\<exists>sid. truthy (getSessionIdHeader req) = Some sid \<and> requestMethod req = ''DELETE'' \<and>
      activeSessions (fst (handleHttpRequest env st req res)) = Map_delete sid (activeSessions st))"
proof (cases "requestPath req = ''/mcp''")
  case False
  then show ?thesis by (simp add: handleHttpRequest_def)
next
  case path: True
  show ?thesis
  proof (cases "truthy (getSessionIdHeader req)")
    case None
    show ?thesis
    proof (cases "requestMethod req = ''POST''")
      case True
      show ?thesis
        unfolding handle_create[OF path None True]
        using tryForward_table[of env "st\<lparr>sessionsCreated := Suc (sessionsCreated st)\<rparr>"
            "ensureAcceptHeader req" res "''POST''" "getSessionIdHeader req" "sessionsCreated st" True]
        by simp blast
    next
      case False
      then show ?thesis by (simp add: handle_missing[OF path None])
    qed
  next
    case (Some sid)
    show ?thesis
    proof (cases "Map_get (activeSessions st) sid")
      case None
      then show ?thesis by (simp add: handle_unknown[OF path Some])
    next
      case (Some state)
      show ?thesis
        unfolding handle_known[OF path \<open>truthy (getSessionIdHeader req) = Some sid\<close> Some]
        using tryForward_table[of env st "ensureAcceptHeader req" res "requestMethod req"
            "getSessionIdHeader req" state False]
        by blast
    qed
  qed
qed


lemma set_Map_set_absent:
  "\<not> Map_has m k \<Longrightarrow> set (Map_set k v m) = insert (k, v) (set m)"
  by (induction m) (auto simp add: Map_has_def Map_set_def split: if_splits)

lemma set_Map_delete: "x \<in> set (Map_delete k m) \<Longrightarrow> x \<in> set m"
  by (auto simp add: Map_delete_def AList.delete_eq)

lemma handle_new_entry:
  assumes "(k, s) \<in> set (activeSessions (fst (handleHttpRequest env st req res)))"
    and "(k, s) \<notin> set (activeSessions st)"
  shows "k \<noteq> [] \<and> \<not> threw (handleRequest env s (ensureAcceptHeader req) res) \<and>
         transportSessionId (handleRequest env s (ensureAcceptHeader req) res) = Some k"
  using handle_table[of env st req res] assms
  by (auto simp add: set_Map_set_absent dest!: set_Map_delete)

lemma handle_distinct:
  assumes "distinct (map fst (activeSessions st))"
  shows "distinct (map fst (activeSessions (fst (handleHttpRequest env st req res))))"
  using handle_table[of env st req res] assms
  by (auto simp add: Map_set_def Map_delete_def distinct_update distinct_delete)

lemma handle_keeps_entry:
  assumes "Map_get (activeSessions st) k = Some s"
  shows "Map_get (activeSessions (fst (handleHttpRequest env st req res))) k = Some s \<or>
         (Map_get (activeSessions (fst (handleHttpRequest env st req res))) k = None \<and>
          requestMethod req = ''DELETE'' \<and> truthy (getSessionIdHeader req) = Some k)"
  using handle_table[of env st req res] assms
  by (elim disjE exE conjE)
     (auto simp add: Map_get_def Map_has_def Map_set_def Map_delete_def update_conv' delete_conv'
        split: if_splits)

lemma reachable_distinct: "reachable st \<Longrightarrow> distinct (map fst (activeSessions st))"
  by (induction rule: reachable.induct) (simp_all add: initialProcess_def handle_distinct)

subsection \<open>The drain loop\<close>

lemma drainSessions_log:
  "teardownLog (drainSessions env es st) = teardownLog st @ concat (map (sessionTeardown \<circ> snd) es)"
  by (induction es arbitrary: st) (auto simp add: sessionTeardown_def)

lemma drainSessions_table:
  "activeSessions (drainSessions env es st) =
     filter (\<lambda>(k, s). k \<notin> fst ` set es) (activeSessions st)"
proof (induction es arbitrary: st)
  case Nil
  then show ?case by simp
next
  case (Cons e es)
  obtain k s where e: "e = (k, s)" by (cases e)
  show ?case
    unfolding e by (simp add: Cons.IH Map_delete_def AList.delete_eq) (rule filter_cong, auto)
qed

lemma drainSessions_rest [simp]:
  "sessionsCreated (drainSessions env es st) = sessionsCreated st"
  "activeHttpServer (drainSessions env es st) = activeHttpServer st"
  "activeStdioServer (drainSessions env es st) = activeStdioServer st"
  by (induction es arbitrary: st) auto

lemma count_list_distinct: "distinct xs \<Longrightarrow> x \<in> set xs \<Longrightarrow> count_list xs x = 1"
  by (induction xs) auto

lemma count_teardown:
  "count_list (concat (map (sessionTeardown \<circ> snd) es)) (TransportClose s) = count_list (map snd es) s"
  "count_list (concat (map (sessionTeardown \<circ> snd) es)) (ServerClose s) = count_list (map snd es) s"
  by (induction es) (auto simp add: sessionTeardown_def)

section \<open>The claims\<close>

subsection \<open>Explicit termination\<close>

text \<open>
  Claim C1, as the code has it. A request to \<^verbatim>\<open>/mcp\<close> carries a session id that is in the
  table, its method is DELETE, and \<^verbatim>\<open>handleRequest\<close> returns. Then the entry of that id is
  gone from the table and the router has called \<^verbatim>\<open>server.close()\<close> of the session, once:
  the handler is released, and so is the transport, given that the SDK's
  \<^verbatim>\<open>server.close()\<close> closes the transport the server is connected to. With requests
  handled one after the other, a request to \<^verbatim>\<open>/mcp\<close> that follows with the same id, on a
  response that has not started, leaves the process as it is and is answered 404 with
  the JSON-RPC error \<open>-32001\<close> "Session not found".
\<close>

theorem delete_terminates_session:
  assumes "requestPath req = ''/mcp''"
    and "truthy (getSessionIdHeader req) = Some sid"
    and "Map_get (activeSessions st) sid = Some state"
    and "requestMethod req = ''DELETE''"
    and "\<not> threw (handleRequest env state (ensureAcceptHeader req) res)"
    and "serverCloseClosesTransport env"
    and "requestPath req' = ''/mcp''"
    and "truthy (getSessionIdHeader req') = Some sid"
    and "\<not> headersSent res'"
  shows "Map_get (activeSessions (fst (handleHttpRequest env st req res))) sid = None \<and>
         teardownLog (fst (handleHttpRequest env st req res)) = teardownLog st @ [ServerClose state] \<and>
         handlerClosed (teardownLog (fst (handleHttpRequest env st req res))) state \<and>
         transportClosed env (teardownLog (fst (handleHttpRequest env st req res))) state \<and>
         fst (handleHttpRequest env' (fst (handleHttpRequest env st req res)) req' res') =
           fst (handleHttpRequest env st req res) \<and>
         statusCode (snd (handleHttpRequest env' (fst (handleHttpRequest env st req res)) req' res'))
           = 404 \<and>
         written (snd (handleHttpRequest env' (fst (handleHttpRequest env st req res)) req' res')) =
           written res' @
             [Stringified (JObject [(''jsonrpc'', JString ''2.0''),
                (''error'', JObject [(''code'', JNumber (- 32001)),
                                     (''message'', JString ''Session not found'')]),
                (''id'', JNull)])]"
proof -
  let ?out = "handleRequest env state (ensureAcceptHeader req) res"
  let ?r = "handleHttpRequest env st req res"
  have sid: "sid \<noteq> []" "getSessionIdHeader req = Some sid"
    using truthy_Some[OF assms(2)] by simp_all
  obtain s where s:
      "afterHandle env st ''DELETE'' (Some sid) state False (transportSessionId ?out) = Inl s
        \<or> afterHandle env st ''DELETE'' (Some sid) state False (transportSessionId ?out) = Inr s"
      "teardownLog s = teardownLog st @ [ServerClose state]"
      "Map_get (activeSessions s) sid = None"
    using afterHandle_delete[OF refl sid(1) refl] by blast
  have "fst ?r = s"
    using s(1) assms(5) unfolding handle_known[OF assms(1-3)] assms(4) sid(2)
    by (auto simp add: tryForward_def catchBlock_def Let_def)
  then show ?thesis
    using s(2,3) handle_unknown[OF assms(7,8), of s env' res'] assms(6,9)
    by (simp add: writeJsonError_fresh handlerClosed_def transportClosed_def jsonRpcError_def)
qed

theorem delete_terminates_session_witness:
  "requestPath deleteRequest = ''/mcp'' \<and>
   truthy (getSessionIdHeader deleteRequest) = Some ''s1'' \<and>
   Map_get (activeSessions oneSession) ''s1'' = Some 0 \<and>
   requestMethod deleteRequest = ''DELETE'' \<and>
   serverCloseClosesTransport (environment (answered (Some ''s1'')) True CloseCompleted) \<and>
   Map_get (activeSessions (fst (handleHttpRequest (environment (answered (Some ''s1'')) True CloseCompleted)
       oneSession deleteRequest freshResponse))) ''s1'' = None \<and>
   teardownLog (fst (handleHttpRequest (environment (answered (Some ''s1'')) True CloseCompleted)
       oneSession deleteRequest freshResponse)) = [ServerClose 0] \<and>
   transportClosed (environment (answered (Some ''s1'')) True CloseCompleted)
     (teardownLog (fst (handleHttpRequest (environment (answered (Some ''s1'')) True CloseCompleted)
       oneSession deleteRequest freshResponse))) 0 \<and>
   statusCode (snd (handleHttpRequest (environment (answered None) False CloseCompleted)
       (fst (handleHttpRequest (environment (answered (Some ''s1'')) True CloseCompleted)
          oneSession deleteRequest freshResponse)) getRequest freshResponse)) = 404"
proof -
  have h1: "requestPath deleteRequest = ''/mcp''"
    and h2: "truthy (getSessionIdHeader deleteRequest) = Some ''s1''"
    and h3: "Map_get (activeSessions oneSession) ''s1'' = Some 0"
    and h4: "requestMethod deleteRequest = ''DELETE''"
    and h7: "requestPath getRequest = ''/mcp''"
    and h8: "truthy (getSessionIdHeader getRequest) = Some ''s1''"
    and h9: "\<not> headersSent freshResponse"
    by (simp_all add: inputs requestPath_def requestMethod_def toUpperCase_def toUpperChar_def
        getSessionIdHeader_def Map_get_def)
  have h5: "\<not> threw (handleRequest (environment (answered (Some ''s1'')) True CloseCompleted) 0
                (ensureAcceptHeader deleteRequest) freshResponse)"
    and h6: "serverCloseClosesTransport (environment (answered (Some ''s1'')) True CloseCompleted)"
    by (simp_all add: environment_def answered_def)
  have log: "teardownLog oneSession = []"
    by (simp add: oneSession_def)
  note T = delete_terminates_session[OF h1 h2 h3 h4 h5 h6 h7 h8 h9,
            of "environment (answered None) False CloseCompleted"]
  show ?thesis
    using h1 h2 h3 h4 h6 log T[THEN conjunct1] T[THEN conjunct2, THEN conjunct1]
      T[THEN conjunct2, THEN conjunct2, THEN conjunct2, THEN conjunct1]
      T[THEN conjunct2, THEN conjunct2, THEN conjunct2, THEN conjunct2, THEN conjunct2, THEN conjunct1]
    by simp
qed

text \<open>
  Claim C1 as stated has every request that follows with the same id answered with the
  session-not-found error. The path is tested first: after the DELETE of the one
  registered session, a request to \<^verbatim>\<open>/health\<close> that carries the id is answered 404 with the
  plain body "Not found", and no JSON-RPC error object is written.
\<close>

theorem after_delete_other_path_is_plain_not_found:
  "requestMethod deleteRequest = ''DELETE'' \<and>
   Map_get (activeSessions oneSession) ''s1'' = Some 0 \<and>
   \<not> threw (handleRequest (environment (answered (Some ''s1'')) False CloseCompleted) 0
              (ensureAcceptHeader deleteRequest) freshResponse) \<and>
   activeSessions (fst (handleHttpRequest (environment (answered (Some ''s1'')) False CloseCompleted)
      oneSession deleteRequest freshResponse)) = [] \<and>
   truthy (getSessionIdHeader healthWithId) = Some ''s1'' \<and>
   statusCode (snd (handleHttpRequest (environment (answered None) False CloseCompleted)
      (fst (handleHttpRequest (environment (answered (Some ''s1'')) False CloseCompleted)
         oneSession deleteRequest freshResponse)) healthWithId freshResponse)) = 404 \<and>
   written (snd (handleHttpRequest (environment (answered None) False CloseCompleted)
      (fst (handleHttpRequest (environment (answered (Some ''s1'')) False CloseCompleted)
         oneSession deleteRequest freshResponse)) healthWithId freshResponse)) = [Plain ''Not found''] \<and>
   Stringified (JObject [(''jsonrpc'', JString ''2.0''),
      (''error'', JObject [(''code'', JNumber (- 32001)), (''message'', JString ''Session not found'')]),
      (''id'', JNull)]) \<notin>
     set (written (snd (handleHttpRequest (environment (answered None) False CloseCompleted)
      (fst (handleHttpRequest (environment (answered (Some ''s1'')) False CloseCompleted)
         oneSession deleteRequest freshResponse)) healthWithId freshResponse)))"
  by (simp add: inputs router)

text \<open>
  The statements after \<^verbatim>\<open>await state.transport.handleRequest(req, res)\<close> run on the table as
  it is when the call returns. When a GET of session \<open>s1\<close> is waiting there while the
  DELETE of \<open>s1\<close> is handled, the statements of the GET find the id absent and register
  the session again (the transport still has its id), and a request to \<^verbatim>\<open>/mcp\<close> with the id
  is forwarded to the closed session. This is why the follow-up of claim C1 is stated
  for requests handled one after the other.
\<close>

theorem waiting_request_registers_session_again:
  "activeSessions (fst (handleHttpRequest (environment (answered (Some ''s1'')) False CloseCompleted)
      oneSession deleteRequest freshResponse)) = [] \<and>
   afterHandle (environment (answered (Some ''s1'')) False CloseCompleted)
      (fst (handleHttpRequest (environment (answered (Some ''s1'')) False CloseCompleted)
         oneSession deleteRequest freshResponse))
      ''GET'' (Some ''s1'') 0 False (Some ''s1'') =
     Inr \<lparr>activeSessions = [(''s1'', 0)], sessionsCreated = 1, teardownLog = [ServerClose 0],
          activeHttpServer = True, activeStdioServer = False\<rparr> \<and>
   written (snd (handleHttpRequest (environment (answered (Some ''s1'')) False CloseCompleted)
      \<lparr>activeSessions = [(''s1'', 0)], sessionsCreated = 1, teardownLog = [ServerClose 0],
       activeHttpServer = True, activeStdioServer = False\<rparr> getRequest freshResponse))
     = [Plain ''ok'']"
  by (simp add: inputs router)

subsection \<open>Requests that construct a session\<close>

text \<open>
  Claim C2. A POST to \<^verbatim>\<open>/mcp\<close> without a session id constructs a session. If
  \<^verbatim>\<open>handleRequest\<close> returns and the transport has no session id after it, the table is
  left as it was, and the calls that follow in the log are close calls of the new session
  only, with both its \<^verbatim>\<open>transport.close()\<close> and its \<^verbatim>\<open>server.close()\<close> among them (also
  when one of them rejects). And for every request: an entry that is in the table after
  the request and was not in it before is \<open>(k, s)\<close> where \<open>k\<close> is a non-empty session id
  that the transport of \<open>s\<close> had after handling this request without a fault.
\<close>

theorem unidentified_session_not_registered:
  "(requestPath req = ''/mcp'' \<longrightarrow> truthy (getSessionIdHeader req) = None \<longrightarrow>
    requestMethod req = ''POST'' \<longrightarrow>
    \<not> threw (handleRequest env (sessionsCreated st) (ensureAcceptHeader req) res) \<longrightarrow>
    truthy (transportSessionId
              (handleRequest env (sessionsCreated st) (ensureAcceptHeader req) res)) = None
    \<longrightarrow>
      activeSessions (fst (handleHttpRequest env st req res)) = activeSessions st \<and>
      sessionsCreated (fst (handleHttpRequest env st req res)) = Suc (sessionsCreated st) \<and>
      take (length (teardownLog st)) (teardownLog (fst (handleHttpRequest env st req res)))
        = teardownLog st \<and>
      set (drop (length (teardownLog st)) (teardownLog (fst (handleHttpRequest env st req res))))
        = {TransportClose (sessionsCreated st), ServerClose (sessionsCreated st)}) \<and>
   (\<forall>k s. (k, s) \<in> set (activeSessions (fst (handleHttpRequest env st req res))) \<longrightarrow>
          (k, s) \<notin> set (activeSessions st)
      \<longrightarrow> k \<noteq> [] \<and> \<not> threw (handleRequest env s (ensureAcceptHeader req) res) \<and>
          transportSessionId (handleRequest env s (ensureAcceptHeader req) res) = Some k)"
proof (intro conjI impI allI)
  let ?n = "sessionsCreated st"
  let ?st1 = "st\<lparr>sessionsCreated := Suc ?n\<rparr>"
  let ?r = "handleHttpRequest env st req res"
  assume a: "requestPath req = ''/mcp''" "truthy (getSessionIdHeader req) = None"
    "requestMethod req = ''POST''"
    "\<not> threw (handleRequest env ?n (ensureAcceptHeader req) res)"
    "truthy (transportSessionId (handleRequest env ?n (ensureAcceptHeader req) res)) = None"
  have *: "?r = tryForward env ?st1 (ensureAcceptHeader req) res ''POST''
                      (getSessionIdHeader req) ?n True"
    by (rule handle_create[OF a(1-3)])
  have none: "getSessionIdHeader req = None \<or> getSessionIdHeader req = Some []"
    using a(2) by (cases "getSessionIdHeader req") (simp_all split: if_splits)
  show "activeSessions (fst ?r) = activeSessions st"
    unfolding * using a(4,5) none
    by (auto simp add: tryForward_def afterHandle_def awaitClose_def catchBlock_def Let_def)
  show "sessionsCreated (fst ?r) = Suc ?n"
    unfolding * using a(4,5) none
    by (auto simp add: tryForward_def afterHandle_def awaitClose_def catchBlock_def Let_def)
  show "take (length (teardownLog st)) (teardownLog (fst ?r)) = teardownLog st"
    unfolding * using a(4,5) none
    by (auto simp add: tryForward_def afterHandle_def awaitClose_def catchBlock_def Let_def)
  show "set (drop (length (teardownLog st)) (teardownLog (fst ?r)))
          = {TransportClose ?n, ServerClose ?n}"
    unfolding * using a(4,5) none
    by (auto simp add: tryForward_def afterHandle_def awaitClose_def catchBlock_def Let_def)
next
  fix k s
  assume "(k, s) \<in> set (activeSessions (fst (handleHttpRequest env st req res)))"
    and "(k, s) \<notin> set (activeSessions st)"
  then have new: "k \<noteq> [] \<and> \<not> threw (handleRequest env s (ensureAcceptHeader req) res) \<and>
      transportSessionId (handleRequest env s (ensureAcceptHeader req) res) = Some k"
    by (rule handle_new_entry)
  from new show "k \<noteq> []" by simp
  from new show "\<not> threw (handleRequest env s (ensureAcceptHeader req) res)" by simp
  from new show "transportSessionId (handleRequest env s (ensureAcceptHeader req) res) = Some k"
    by simp
qed

text \<open>
  The theorem at two inputs. A POST whose transport ends without a session id, with every
  close call rejecting: nothing is registered and the session is closed. A POST whose
  transport ends with the id \<open>s2\<close>: the entry that appears is the one of that id.
\<close>

theorem unidentified_session_not_registered_witness:
  "requestPath postRequest = ''/mcp'' \<and> truthy (getSessionIdHeader postRequest) = None \<and>
   requestMethod postRequest = ''POST'' \<and>
   activeSessions (fst (handleHttpRequest (environment (answered (Some [])) True CloseCompleted)
      oneSession postRequest freshResponse)) = [(''s1'', 0)] \<and>
   set (drop 0 (teardownLog (fst (handleHttpRequest (environment (answered (Some [])) True CloseCompleted)
      oneSession postRequest freshResponse)))) = {TransportClose 1, ServerClose 1} \<and>
   (''s2'', 1) \<in> set (activeSessions (fst (handleHttpRequest
      (environment (answered (Some ''s2'')) False CloseCompleted) oneSession postRequest freshResponse))) \<and>
   transportSessionId (handleRequest (environment (answered (Some ''s2'')) False CloseCompleted) 1
      (ensureAcceptHeader postRequest) freshResponse) = Some ''s2''"
proof -
  have h: "requestPath postRequest = ''/mcp''" "truthy (getSessionIdHeader postRequest) = None"
      "requestMethod postRequest = ''POST''"
      "\<not> threw (handleRequest (environment (answered (Some [])) True CloseCompleted)
                (sessionsCreated oneSession) (ensureAcceptHeader postRequest) freshResponse)"
      "truthy (transportSessionId (handleRequest (environment (answered (Some [])) True CloseCompleted)
                (sessionsCreated oneSession) (ensureAcceptHeader postRequest) freshResponse)) = None"
    by (simp_all add: inputs requestPath_def requestMethod_def toUpperCase_def toUpperChar_def
        getSessionIdHeader_def)
  have st: "activeSessions oneSession = [(''s1'', 0)]" "sessionsCreated oneSession = 1"
      "teardownLog oneSession = []"
    by (simp_all add: oneSession_def)
  have new: "(''s2'', 1) \<in> set (activeSessions (fst (handleHttpRequest
      (environment (answered (Some ''s2'')) False CloseCompleted) oneSession postRequest freshResponse)))"
      "(''s2'', 1) \<notin> set (activeSessions oneSession)"
    by (simp_all add: inputs router)
  note first = unidentified_session_not_registered[THEN conjunct1, rule_format, OF h]
  note second = unidentified_session_not_registered[THEN conjunct2, rule_format, OF new]
  have a: "activeSessions (fst (handleHttpRequest (environment (answered (Some [])) True CloseCompleted)
        oneSession postRequest freshResponse)) = [(''s1'', 0)]"
    using first st(1) by simp
  have b: "set (drop 0 (teardownLog (fst (handleHttpRequest
        (environment (answered (Some [])) True CloseCompleted) oneSession postRequest freshResponse))))
      = {TransportClose 1, ServerClose 1}"
    using first st(2,3) by simp
  show ?thesis using h(1-3) a b new(1) second by blast
qed

text \<open>
  Claim C3, as the code has it. A POST to \<^verbatim>\<open>/mcp\<close> without a session id constructs a
  session; if \<^verbatim>\<open>handleRequest\<close> throws, the table is left as it was, the router calls
  \<^verbatim>\<open>transport.close()\<close> and then \<^verbatim>\<open>server.close()\<close> of the new session, once each, and it
  calls \<^verbatim>\<open>writeJsonError\<close> with 500 and \<open>-32603\<close> on the response as the transport left it.
  When no header had been sent, that writes the internal-error response; when the
  response had already started, nothing more is written.
\<close>

theorem fault_on_new_session:
  assumes "requestPath req = ''/mcp''"
    and "truthy (getSessionIdHeader req) = None"
    and "requestMethod req = ''POST''"
    and "threw (handleRequest env (sessionsCreated st) (ensureAcceptHeader req) res)"
  shows "activeSessions (fst (handleHttpRequest env st req res)) = activeSessions st \<and>
         teardownLog (fst (handleHttpRequest env st req res)) =
           teardownLog st @ sessionTeardown (sessionsCreated st) \<and>
         (\<not> headersSent (resAfter (handleRequest env (sessionsCreated st) (ensureAcceptHeader req) res))
            \<longrightarrow> statusCode (snd (handleHttpRequest env st req res)) = 500 \<and>
                written (snd (handleHttpRequest env st req res)) =
                  written (resAfter (handleRequest env (sessionsCreated st) (ensureAcceptHeader req) res))
                  @ [Stringified (jsonRpcError (- 32603) ''Internal server error'')]) \<and>
         (headersSent (resAfter (handleRequest env (sessionsCreated st) (ensureAcceptHeader req) res))
            \<longrightarrow> snd (handleHttpRequest env st req res) =
                  resAfter (handleRequest env (sessionsCreated st) (ensureAcceptHeader req) res))"
  unfolding handle_create[OF assms(1-3)] tryForward_threw[OF assms(4)]
  by (simp add: writeJsonError_fresh writeJsonError_sent sessionTeardown_def)

theorem fault_on_new_session_witness:
  "requestPath postRequest = ''/mcp'' \<and> truthy (getSessionIdHeader postRequest) = None \<and>
   requestMethod postRequest = ''POST'' \<and>
   threw (handleRequest (environment (faulted freshResponse) True CloseCompleted) 1
            (ensureAcceptHeader postRequest) freshResponse) \<and>
   activeSessions (fst (handleHttpRequest (environment (faulted freshResponse) True CloseCompleted)
      oneSession postRequest freshResponse)) = [(''s1'', 0)] \<and>
   teardownLog (fst (handleHttpRequest (environment (faulted freshResponse) True CloseCompleted)
      oneSession postRequest freshResponse)) = [TransportClose 1, ServerClose 1] \<and>
   statusCode (snd (handleHttpRequest (environment (faulted freshResponse) True CloseCompleted)
      oneSession postRequest freshResponse)) = 500 \<and>
   written (snd (handleHttpRequest (environment (faulted freshResponse) True CloseCompleted)
      oneSession postRequest freshResponse)) =
     [Stringified (jsonRpcError (- 32603) ''Internal server error'')] \<and>
   snd (handleHttpRequest (environment (faulted startedResponse) True CloseCompleted)
      oneSession postRequest freshResponse) = startedResponse"
proof -
  have h: "requestPath postRequest = ''/mcp''" "truthy (getSessionIdHeader postRequest) = None"
      "requestMethod postRequest = ''POST''"
    by (simp_all add: inputs requestPath_def requestMethod_def toUpperCase_def toUpperChar_def
        getSessionIdHeader_def)
  have t: "threw (handleRequest (environment (faulted r) True CloseCompleted) (sessionsCreated oneSession)
                    (ensureAcceptHeader postRequest) freshResponse)"
      "resAfter (handleRequest (environment (faulted r) True CloseCompleted) (sessionsCreated oneSession)
                    (ensureAcceptHeader postRequest) freshResponse) = r" for r
    by (simp_all add: environment_def faulted_def)
  have st: "activeSessions oneSession = [(''s1'', 0)]" "sessionsCreated oneSession = 1"
      "teardownLog oneSession = []" "\<not> headersSent freshResponse" "written freshResponse = []"
      "headersSent startedResponse"
    by (simp_all add: oneSession_def freshResponse_def startedResponse_def)
  show ?thesis
    using fault_on_new_session[OF h t(1), of freshResponse]
      fault_on_new_session[OF h t(1), of startedResponse] h t st
    by (simp add: sessionTeardown_def)
qed

text \<open>
  Claim C3 as stated has the internal-error response written for every such request.
  The guard of \<^verbatim>\<open>writeJsonError\<close> makes it a no-op once headers are sent: when the
  transport throws after it has started the response, the session is torn down and the
  caller gets the started response with no error object in it.
\<close>

theorem fault_after_headers_sent_writes_nothing:
  "requestPath postRequest = ''/mcp'' \<and> truthy (getSessionIdHeader postRequest) = None \<and>
   requestMethod postRequest = ''POST'' \<and>
   threw (handleRequest (environment (faulted startedResponse) False CloseCompleted) 1
            (ensureAcceptHeader postRequest) freshResponse) \<and>
   teardownLog (fst (handleHttpRequest (environment (faulted startedResponse) False CloseCompleted)
      oneSession postRequest freshResponse)) = [TransportClose 1, ServerClose 1] \<and>
   statusCode (snd (handleHttpRequest (environment (faulted startedResponse) False CloseCompleted)
      oneSession postRequest freshResponse)) = 200 \<and>
   written (snd (handleHttpRequest (environment (faulted startedResponse) False CloseCompleted)
      oneSession postRequest freshResponse)) = [Plain ''partial''] \<and>
   Stringified (jsonRpcError (- 32603) ''Internal server error'') \<notin>
     set (written (snd (handleHttpRequest (environment (faulted startedResponse) False CloseCompleted)
      oneSession postRequest freshResponse)))"
  by (simp add: inputs router)

text \<open>
  Claim C4, as the code has it. In every state the process can reach, the table has at
  most one entry per id. A request never replaces the session of an entry: an id that is in
  the table keeps its session, unless the request is the DELETE of that id, which removes
  the entry. When a POST without a session id constructs a session and its transport ends
  with an id that is already in the table, the table is left as it was.
\<close>

theorem insert_keeps_existing_entry:
  assumes "reachable st"
  shows "distinct (map fst (activeSessions st)) \<and>
         distinct (map fst (activeSessions (fst (handleHttpRequest env st req res)))) \<and>
         (\<forall>k s. Map_get (activeSessions st) k = Some s \<longrightarrow>
            Map_get (activeSessions (fst (handleHttpRequest env st req res))) k = Some s \<or>
            (Map_get (activeSessions (fst (handleHttpRequest env st req res))) k = None \<and>
             requestMethod req = ''DELETE'' \<and> truthy (getSessionIdHeader req) = Some k)) \<and>
         (requestPath req = ''/mcp'' \<longrightarrow> truthy (getSessionIdHeader req) = None \<longrightarrow>
          requestMethod req = ''POST'' \<longrightarrow>
          \<not> threw (handleRequest env (sessionsCreated st) (ensureAcceptHeader req) res) \<longrightarrow>
          truthy (transportSessionId
                    (handleRequest env (sessionsCreated st) (ensureAcceptHeader req) res)) = Some e \<longrightarrow>
          Map_has (activeSessions st) e \<longrightarrow>
            activeSessions (fst (handleHttpRequest env st req res)) = activeSessions st)"
proof (intro conjI allI impI)
  show d: "distinct (map fst (activeSessions st))"
    using assms by (rule reachable_distinct)
  show "distinct (map fst (activeSessions (fst (handleHttpRequest env st req res))))"
    using d by (rule handle_distinct)
next
  fix k s
  assume "Map_get (activeSessions st) k = Some s"
  then show "Map_get (activeSessions (fst (handleHttpRequest env st req res))) k = Some s \<or>
            (Map_get (activeSessions (fst (handleHttpRequest env st req res))) k = None \<and>
             requestMethod req = ''DELETE'' \<and> truthy (getSessionIdHeader req) = Some k)"
    by (rule handle_keeps_entry)
next
  let ?n = "sessionsCreated st"
  assume a: "requestPath req = ''/mcp''" "truthy (getSessionIdHeader req) = None"
    "requestMethod req = ''POST''"
    "\<not> threw (handleRequest env ?n (ensureAcceptHeader req) res)"
    "truthy (transportSessionId (handleRequest env ?n (ensureAcceptHeader req) res)) = Some e"
    "Map_has (activeSessions st) e"
  show "activeSessions (fst (handleHttpRequest env st req res)) = activeSessions st"
    unfolding handle_create[OF a(1-3)] using a(2,4,5,6)
    by (auto simp add: tryForward_def afterHandle_def Let_def)
qed

text \<open>
  The theorem at the state reached by one POST that registered \<open>s1\<close>, and a second POST
  whose transport ends with \<open>s1\<close> again.
\<close>

theorem insert_keeps_existing_entry_witness:
  "reachable oneSession \<and>
   distinct (map fst (activeSessions oneSession)) \<and>
   Map_get (activeSessions oneSession) ''s1'' = Some 0 \<and>
   Map_has (activeSessions oneSession) ''s1'' \<and>
   Map_get (activeSessions (fst (handleHttpRequest (environment (answered (Some ''s1'')) False CloseCompleted)
     oneSession postRequest freshResponse))) ''s1'' = Some 0 \<and>
   activeSessions (fst (handleHttpRequest (environment (answered (Some ''s1'')) False CloseCompleted)
     oneSession postRequest freshResponse)) = activeSessions oneSession"
proof -
  have "fst (handleHttpRequest (environment (answered (Some ''s1'')) False CloseCompleted)
          (initialProcess True False) postRequest freshResponse) = oneSession"
    by (simp add: inputs router)
  then have r: "reachable oneSession"
    using reachable.request[OF reachable.start, of "environment (answered (Some ''s1'')) False CloseCompleted"
        True False postRequest freshResponse]
    by simp
  have h: "requestPath postRequest = ''/mcp''" "truthy (getSessionIdHeader postRequest) = None"
      "requestMethod postRequest = ''POST''"
      "\<not> threw (handleRequest (environment (answered (Some ''s1'')) False CloseCompleted)
                (sessionsCreated oneSession) (ensureAcceptHeader postRequest) freshResponse)"
      "truthy (transportSessionId (handleRequest (environment (answered (Some ''s1'')) False CloseCompleted)
                (sessionsCreated oneSession) (ensureAcceptHeader postRequest) freshResponse))
         = Some ''s1''"
      "Map_has (activeSessions oneSession) ''s1''"
    by (simp_all add: inputs requestPath_def requestMethod_def toUpperCase_def toUpperChar_def
        getSessionIdHeader_def Map_has_def)
  have g: "Map_get (activeSessions oneSession) ''s1'' = Some 0"
    by (simp add: oneSession_def Map_get_def)
  note T = insert_keeps_existing_entry[OF r, of "environment (answered (Some ''s1'')) False CloseCompleted"
      postRequest freshResponse "''s1''"]
  note same = T[THEN conjunct2, THEN conjunct2, THEN conjunct2, rule_format, OF h]
  have kept: "Map_get (activeSessions (fst (handleHttpRequest
      (environment (answered (Some ''s1'')) False CloseCompleted) oneSession postRequest freshResponse))) ''s1''
      = Some 0"
    using T[THEN conjunct2, THEN conjunct2, THEN conjunct1, rule_format, OF g] h(3) by simp
  show ?thesis
    using r T[THEN conjunct1] g h(6) kept same by blast
qed

text \<open>
  Claim C4 as stated also has the losing session closed. The code has no such call: the
  POST above constructs session 1, its id \<open>s1\<close> is already registered for session 0,
  and the request ends with session 1 neither in the table nor closed.
\<close>

theorem losing_session_is_not_closed:
  "sessionsCreated (fst (handleHttpRequest (environment (answered (Some ''s1'')) False CloseCompleted)
     oneSession postRequest freshResponse)) = 2 \<and>
   activeSessions (fst (handleHttpRequest (environment (answered (Some ''s1'')) False CloseCompleted)
     oneSession postRequest freshResponse)) = [(''s1'', 0)] \<and>
   teardownLog (fst (handleHttpRequest (environment (answered (Some ''s1'')) False CloseCompleted)
     oneSession postRequest freshResponse)) = [] \<and>
   TransportClose 1 \<notin> set (teardownLog (fst (handleHttpRequest
     (environment (answered (Some ''s1'')) False CloseCompleted) oneSession postRequest freshResponse))) \<and>
   ServerClose 1 \<notin> set (teardownLog (fst (handleHttpRequest
     (environment (answered (Some ''s1'')) False CloseCompleted) oneSession postRequest freshResponse)))"
  by (simp add: inputs router)

subsection \<open>Requests that are rejected\<close>

text \<open>
  Claim C5, as the code has it. A request to \<^verbatim>\<open>/mcp\<close> carries a session id that is not in
  the table, and its response has not started. Then the process state is left as it is
  (no session is constructed, no close call is made, the table is the same) and the
  response is 404 with the JSON-RPC error \<open>-32001\<close> "Session not found", an object
  different from the one of the missing-session-id error (\<open>-32000\<close>) and from the one of
  the internal error (\<open>-32603\<close>), whatever their messages.
\<close>

theorem unknown_session_rejected:
  assumes "requestPath req = ''/mcp''"
    and "truthy (getSessionIdHeader req) = Some sid"
    and "Map_get (activeSessions st) sid = None"
    and "\<not> headersSent res"
  shows "fst (handleHttpRequest env st req res) = st \<and>
         statusCode (snd (handleHttpRequest env st req res)) = 404 \<and>
         written (snd (handleHttpRequest env st req res)) =
           written res @
             [Stringified (JObject [(''jsonrpc'', JString ''2.0''),
                (''error'', JObject [(''code'', JNumber (- 32001)),
                                     (''message'', JString ''Session not found'')]),
                (''id'', JNull)])] \<and>
         JObject [(''jsonrpc'', JString ''2.0''),
                  (''error'', JObject [(''code'', JNumber (- 32001)),
                                       (''message'', JString ''Session not found'')]),
                  (''id'', JNull)] \<noteq> jsonRpcError (- 32000) m \<and>
         JObject [(''jsonrpc'', JString ''2.0''),
                  (''error'', JObject [(''code'', JNumber (- 32001)),
                                       (''message'', JString ''Session not found'')]),
                  (''id'', JNull)] \<noteq> jsonRpcError (- 32603) m'"
  unfolding handle_unknown[OF assms(1-3)]
  using assms(4) by (simp add: writeJsonError_fresh) (simp add: jsonRpcError_def)

theorem unknown_session_rejected_witness:
  "requestPath getRequest = ''/mcp'' \<and>
   truthy (getSessionIdHeader getRequest) = Some ''s1'' \<and>
   Map_get (activeSessions (initialProcess True False)) ''s1'' = None \<and>
   fst (handleHttpRequest (environment (answered None) False CloseCompleted) (initialProcess True False)
          getRequest freshResponse) = initialProcess True False \<and>
   statusCode (snd (handleHttpRequest (environment (answered None) False CloseCompleted)
          (initialProcess True False) getRequest freshResponse)) = 404 \<and>
   written (snd (handleHttpRequest (environment (answered None) False CloseCompleted)
          (initialProcess True False) getRequest freshResponse)) =
     [Stringified (JObject [(''jsonrpc'', JString ''2.0''),
        (''error'', JObject [(''code'', JNumber (- 32001)), (''message'', JString ''Session not found'')]),
        (''id'', JNull)])]"
proof -
  have h: "requestPath getRequest = ''/mcp''"
      "truthy (getSessionIdHeader getRequest) = Some ''s1''"
      "Map_get (activeSessions (initialProcess True False)) ''s1'' = None"
      "\<not> headersSent freshResponse"
    by (simp_all add: inputs requestPath_def getSessionIdHeader_def Map_get_def)
  have w: "written freshResponse = []"
    by (simp add: freshResponse_def)
  note T = unknown_session_rejected[OF h, of "environment (answered None) False CloseCompleted"]
  show ?thesis
    using h(1-3) w T[THEN conjunct1] T[THEN conjunct2, THEN conjunct1]
      T[THEN conjunct2, THEN conjunct2, THEN conjunct1]
    by simp
qed

text \<open>
  Claim C5 as stated is about every request with an unknown session id. The path is
  tested before the header is read: a request to \<^verbatim>\<open>/health\<close> with an id that is not in the
  table is answered 404 with the plain body "Not found", and the session-not-found object
  is not written.
\<close>

theorem unknown_session_other_path_is_plain_not_found:
  "truthy (getSessionIdHeader healthWithId) = Some ''s1'' \<and>
   Map_get (activeSessions (initialProcess True False)) ''s1'' = None \<and>
   \<not> headersSent freshResponse \<and>
   statusCode (snd (handleHttpRequest (environment (answered None) False CloseCompleted)
      (initialProcess True False) healthWithId freshResponse)) = 404 \<and>
   written (snd (handleHttpRequest (environment (answered None) False CloseCompleted)
      (initialProcess True False) healthWithId freshResponse)) = [Plain ''Not found''] \<and>
   Stringified (JObject [(''jsonrpc'', JString ''2.0''),
      (''error'', JObject [(''code'', JNumber (- 32001)), (''message'', JString ''Session not found'')]),
      (''id'', JNull)]) \<notin>
     set (written (snd (handleHttpRequest (environment (answered None) False CloseCompleted)
      (initialProcess True False) healthWithId freshResponse)))"
  by (simp add: inputs router)

text \<open>
  Claim C6, as the code has it. A request to \<^verbatim>\<open>/mcp\<close> carries no session id (the header is
  absent or empty), its method is not POST, and its response has not started. Then the
  process state is left as it is (no session is constructed, the table is the same) and
  the response is 400 with the JSON-RPC error \<open>-32000\<close>
  "Bad Request: Mcp-Session-Id header is required".
\<close>

theorem missing_session_id_rejected:
  assumes "requestPath req = ''/mcp''"
    and "truthy (getSessionIdHeader req) = None"
    and "requestMethod req \<noteq> ''POST''"
    and "\<not> headersSent res"
  shows "fst (handleHttpRequest env st req res) = st \<and>
         statusCode (snd (handleHttpRequest env st req res)) = 400 \<and>
         written (snd (handleHttpRequest env st req res)) =
           written res @
             [Stringified (JObject [(''jsonrpc'', JString ''2.0''),
                (''error'', JObject [(''code'', JNumber (- 32000)),
                   (''message'', JString ''Bad Request: Mcp-Session-Id header is required'')]),
                (''id'', JNull)])]"
  unfolding handle_missing[OF assms(1-3)]
  using assms(4) by (simp add: writeJsonError_fresh jsonRpcError_def)

theorem missing_session_id_rejected_witness:
  "requestPath getWithoutId = ''/mcp'' \<and>
   truthy (getSessionIdHeader getWithoutId) = None \<and>
   requestMethod getWithoutId \<noteq> ''POST'' \<and>
   fst (handleHttpRequest (environment (answered (Some ''s2'')) False CloseCompleted) oneSession
          getWithoutId freshResponse) = oneSession \<and>
   statusCode (snd (handleHttpRequest (environment (answered (Some ''s2'')) False CloseCompleted) oneSession
          getWithoutId freshResponse)) = 400 \<and>
   written (snd (handleHttpRequest (environment (answered (Some ''s2'')) False CloseCompleted) oneSession
          getWithoutId freshResponse)) =
     [Stringified (JObject [(''jsonrpc'', JString ''2.0''),
        (''error'', JObject [(''code'', JNumber (- 32000)),
           (''message'', JString ''Bad Request: Mcp-Session-Id header is required'')]),
        (''id'', JNull)])]"
proof -
  have h: "requestPath getWithoutId = ''/mcp''"
      "truthy (getSessionIdHeader getWithoutId) = None"
      "requestMethod getWithoutId \<noteq> ''POST''"
      "\<not> headersSent freshResponse"
    by (simp_all add: inputs requestPath_def requestMethod_def toUpperCase_def toUpperChar_def
        getSessionIdHeader_def)
  have w: "written freshResponse = []"
    by (simp add: freshResponse_def)
  show ?thesis
    using missing_session_id_rejected[OF h, of "environment (answered (Some ''s2'')) False CloseCompleted"
        oneSession] h(1-3) w
    by simp
qed

text \<open>
  Claim C6 as stated is about every request without a session id whose method is not POST.
  The path is tested first: a GET of \<^verbatim>\<open>/health\<close> without the header is answered 404 with
  the plain body "Not found", not 400, and the missing-session-id object is not written.
\<close>

theorem missing_session_id_other_path_is_plain_not_found:
  "truthy (getSessionIdHeader healthRequest) = None \<and>
   requestMethod healthRequest \<noteq> ''POST'' \<and>
   \<not> headersSent freshResponse \<and>
   statusCode (snd (handleHttpRequest (environment (answered None) False CloseCompleted)
      oneSession healthRequest freshResponse)) = 404 \<and>
   written (snd (handleHttpRequest (environment (answered None) False CloseCompleted)
      oneSession healthRequest freshResponse)) = [Plain ''Not found''] \<and>
   Stringified (JObject [(''jsonrpc'', JString ''2.0''),
      (''error'', JObject [(''code'', JNumber (- 32000)),
         (''message'', JString ''Bad Request: Mcp-Session-Id header is required'')]),
      (''id'', JNull)]) \<notin>
     set (written (snd (handleHttpRequest (environment (answered None) False CloseCompleted)
      oneSession healthRequest freshResponse)))"
  by (simp add: inputs router)

text \<open>
  Claim C9. A request whose URL, cut at the first question mark, is not \<^verbatim>\<open>/mcp\<close> (an
  absent URL counts as \<^verbatim>\<open>/\<close>) leaves the process state as it is and gets status 404 with
  the body "Not found", and this is so whatever the \<^verbatim>\<open>mcp-session-id\<close> header holds: the
  result is the same for every value \<open>h\<close> of it.
\<close>

theorem other_paths_not_found:
  assumes "requestPath req \<noteq> ''/mcp''"
  shows "handleHttpRequest env st (req\<lparr>mcpSessionIdHeader := h\<rparr>) res =
           (st, res\<lparr>headersSent := True, statusCode := 404,
                    written := written res @ [Plain ''Not found''], writableEnded := True\<rparr>)"
  using assms by (simp add: handleHttpRequest_def endWith_def requestPath_def)

theorem other_paths_not_found_witness:
  "requestPath healthRequest \<noteq> ''/mcp'' \<and>
   handleHttpRequest (environment (answered (Some ''s2'')) False CloseCompleted) oneSession
       (healthRequest\<lparr>mcpSessionIdHeader := Str ''s1''\<rparr>) freshResponse =
     (oneSession,
      \<lparr>headersSent = True, statusCode = 404, resHeaders = [], written = [Plain ''Not found''],
       writableEnded = True\<rparr>)"
proof -
  have h: "requestPath healthRequest \<noteq> ''/mcp''"
    by (simp add: healthRequest_def request_def requestPath_def)
  show ?thesis
    using other_paths_not_found[OF h, of "environment (answered (Some ''s2'')) False CloseCompleted"
        oneSession "Str ''s1''" freshResponse] h
    by (simp add: freshResponse_def)
qed

subsection \<open>Faults of a registered session\<close>

text \<open>
  Claim C7, as the code has it. A request to \<^verbatim>\<open>/mcp\<close> carries the id of a registered
  session and \<^verbatim>\<open>handleRequest\<close> throws. Then the whole process state is as before: the
  entry is still in the table with the same session, no session is constructed and no close
  call is made. The fault touches the response of this request only: the response is what
  \<^verbatim>\<open>writeJsonError\<close> with 500 and \<open>-32603\<close> makes of the response the transport left,
  which is the internal-error response when no header had been sent, and the response
  as the transport left it otherwise.
\<close>

theorem fault_on_registered_session:
  assumes "requestPath req = ''/mcp''"
    and "truthy (getSessionIdHeader req) = Some sid"
    and "Map_get (activeSessions st) sid = Some state"
    and "threw (handleRequest env state (ensureAcceptHeader req) res)"
  shows "fst (handleHttpRequest env st req res) = st \<and>
         Map_get (activeSessions (fst (handleHttpRequest env st req res))) sid = Some state \<and>
         snd (handleHttpRequest env st req res) =
           writeJsonError (resAfter (handleRequest env state (ensureAcceptHeader req) res))
             500 (- 32603) ''Internal server error'' \<and>
         (\<not> headersSent (resAfter (handleRequest env state (ensureAcceptHeader req) res))
            \<longrightarrow> statusCode (snd (handleHttpRequest env st req res)) = 500 \<and>
                written (snd (handleHttpRequest env st req res)) =
                  written (resAfter (handleRequest env state (ensureAcceptHeader req) res))
                  @ [Stringified (jsonRpcError (- 32603) ''Internal server error'')]) \<and>
         (headersSent (resAfter (handleRequest env state (ensureAcceptHeader req) res))
            \<longrightarrow> snd (handleHttpRequest env st req res) =
                  resAfter (handleRequest env state (ensureAcceptHeader req) res))"
  unfolding handle_known[OF assms(1-3)] tryForward_threw[OF assms(4)]
  using assms(3) by (simp add: writeJsonError_fresh writeJsonError_sent)

theorem fault_on_registered_session_witness:
  "requestPath getRequest = ''/mcp'' \<and>
   truthy (getSessionIdHeader getRequest) = Some ''s1'' \<and>
   Map_get (activeSessions oneSession) ''s1'' = Some 0 \<and>
   threw (handleRequest (environment (faulted freshResponse) False CloseCompleted) 0
            (ensureAcceptHeader getRequest) freshResponse) \<and>
   fst (handleHttpRequest (environment (faulted freshResponse) False CloseCompleted) oneSession
          getRequest freshResponse) = oneSession \<and>
   statusCode (snd (handleHttpRequest (environment (faulted freshResponse) False CloseCompleted) oneSession
          getRequest freshResponse)) = 500 \<and>
   written (snd (handleHttpRequest (environment (faulted freshResponse) False CloseCompleted) oneSession
          getRequest freshResponse)) =
     [Stringified (jsonRpcError (- 32603) ''Internal server error'')]"
proof -
  have h: "requestPath getRequest = ''/mcp''"
      "truthy (getSessionIdHeader getRequest) = Some ''s1''"
      "Map_get (activeSessions oneSession) ''s1'' = Some 0"
      "threw (handleRequest (environment (faulted freshResponse) False CloseCompleted) 0
                (ensureAcceptHeader getRequest) freshResponse)"
    by (simp_all add: inputs requestPath_def getSessionIdHeader_def Map_get_def)
  have r: "resAfter (handleRequest (environment (faulted freshResponse) False CloseCompleted) 0
                (ensureAcceptHeader getRequest) freshResponse) = freshResponse"
      "\<not> headersSent freshResponse" "written freshResponse = []"
    by (simp_all add: environment_def faulted_def freshResponse_def)
  note T = fault_on_registered_session[OF h]
  show ?thesis
    using h T[THEN conjunct1] T[THEN conjunct2, THEN conjunct2, THEN conjunct2, THEN conjunct1] r
    by simp
qed

text \<open>
  Claim C7 as stated has the fault surface as an error response. When the transport of
  the registered session throws after it has started the response, the guard of
  \<^verbatim>\<open>writeJsonError\<close> leaves the response alone: the session stays registered and the caller
  gets the started response with no error object in it.
\<close>

theorem registered_fault_after_headers_sent:
  "requestPath getRequest = ''/mcp'' \<and>
   truthy (getSessionIdHeader getRequest) = Some ''s1'' \<and>
   Map_get (activeSessions oneSession) ''s1'' = Some 0 \<and>
   threw (handleRequest (environment (faulted startedResponse) False CloseCompleted) 0
            (ensureAcceptHeader getRequest) freshResponse) \<and>
   fst (handleHttpRequest (environment (faulted startedResponse) False CloseCompleted) oneSession
          getRequest freshResponse) = oneSession \<and>
   statusCode (snd (handleHttpRequest (environment (faulted startedResponse) False CloseCompleted) oneSession
          getRequest freshResponse)) = 200 \<and>
   written (snd (handleHttpRequest (environment (faulted startedResponse) False CloseCompleted) oneSession
          getRequest freshResponse)) = [Plain ''partial''] \<and>
   Stringified (jsonRpcError (- 32603) ''Internal server error'') \<notin>
     set (written (snd (handleHttpRequest (environment (faulted startedResponse) False CloseCompleted)
          oneSession getRequest freshResponse)))"
  by (simp add: inputs router)

subsection \<open>The error-writing helper\<close>

text \<open>
  Claim C10. When the headers of the response have been sent, \<^verbatim>\<open>writeJsonError\<close> returns the
  response as it is: nothing is overwritten and nothing is appended. Otherwise it sets the
  status code given, sets the content type to \<^verbatim>\<open>application/json\<close>, and ends the response
  with exactly one chunk, the JSON-RPC object with the code and the message given and
  \<^verbatim>\<open>id: null\<close>.
\<close>

theorem writeJsonError_guarded:
  "(headersSent res \<longrightarrow> writeJsonError res sc code message = res) \<and>
   (\<not> headersSent res \<longrightarrow>
      statusCode (writeJsonError res sc code message) = sc \<and>
      written (writeJsonError res sc code message) =
        written res @
          [Stringified (JObject [(''jsonrpc'', JString ''2.0''),
             (''error'', JObject [(''code'', JNumber code), (''message'', JString message)]),
             (''id'', JNull)])] \<and>
      map_of (resHeaders (writeJsonError res sc code message)) ''content-type''
        = Some ''application/json'' \<and>
      headersSent (writeJsonError res sc code message) \<and>
      writableEnded (writeJsonError res sc code message))"
  by (simp add: writeJsonError_def endWith_def setHeader_def jsonRpcError_def update_conv')

theorem writeJsonError_guarded_witness:
  "headersSent startedResponse \<and>
   writeJsonError startedResponse 500 (- 32603) ''Internal server error'' = startedResponse \<and>
   \<not> headersSent freshResponse \<and>
   statusCode (writeJsonError freshResponse 404 (- 32001) ''Session not found'') = 404 \<and>
   written (writeJsonError freshResponse 404 (- 32001) ''Session not found'') =
     [Stringified (JObject [(''jsonrpc'', JString ''2.0''),
        (''error'', JObject [(''code'', JNumber (- 32001)), (''message'', JString ''Session not found'')]),
        (''id'', JNull)])]"
proof -
  have h: "headersSent startedResponse" "\<not> headersSent freshResponse" "written freshResponse = []"
    by (simp_all add: startedResponse_def freshResponse_def)
  note sent = writeJsonError_guarded[THEN conjunct1, rule_format, OF h(1)]
  note fresh = writeJsonError_guarded[THEN conjunct2, rule_format, OF h(2)]
  show ?thesis
    using h sent[of 500 "- 32603" "''Internal server error''"]
      fresh[of 404 "- 32001" "''Session not found''"]
    by simp
qed

subsection \<open>Shutdown\<close>

text \<open>
  Claim C8, as the code has it. When no HTTP server is active, or closing it completes
  without an error, \<^verbatim>\<open>shutdown\<close> reaches \<^verbatim>\<open>process.exit(0)\<close> with an empty table, whatever
  the close calls answer: a close that rejects is swallowed and the loop goes on. The calls
  made are, for each entry of the table in order, the \<^verbatim>\<open>transport.close()\<close> and then the
  \<^verbatim>\<open>server.close()\<close> of its session, and last the close of the stdio server if there is
  one. So each of the two close calls of a session is made once for each entry that holds
  the session: when no session is registered under two ids, the teardown of every
  registered session is invoked exactly once.
\<close>

theorem shutdown_drains:
  assumes "activeHttpServer st \<longrightarrow> httpClose env = CloseCompleted"
  shows "snd (shutdown env st) = Exited 0 \<and>
         activeSessions (fst (shutdown env st)) = [] \<and>
         teardownLog (fst (shutdown env st)) =
           teardownLog st @ concat (map (sessionTeardown \<circ> snd) (activeSessions st))
             @ (if activeStdioServer st then [StdioServerClose] else []) \<and>
         count_list (teardownLog (fst (shutdown env st))) (TransportClose s) =
           count_list (teardownLog st) (TransportClose s) + count_list (map snd (activeSessions st)) s \<and>
         count_list (teardownLog (fst (shutdown env st))) (ServerClose s) =
           count_list (teardownLog st) (ServerClose s) + count_list (map snd (activeSessions st)) s \<and>
         (distinct (map snd (activeSessions st)) \<longrightarrow>
            (\<forall>state \<in> snd ` set (activeSessions st).
               count_list (drop (length (teardownLog st)) (teardownLog (fst (shutdown env st))))
                 (TransportClose state) = 1 \<and>
               count_list (drop (length (teardownLog st)) (teardownLog (fst (shutdown env st))))
                 (ServerClose state) = 1))"
proof -
  have empty: "filter (\<lambda>(k, s). k \<notin> fst ` set (activeSessions st)) (activeSessions st) = []"
    by (auto simp add: filter_empty_conv intro: rev_image_eqI)
  have sh: "shutdown env st =
      (let st1 = drainSessions env (activeSessions st) st;
           st2 = (if activeStdioServer st1 then closeQuietly env StdioServerClose st1 else st1)
       in (st2, Exited 0))"
    using assms by (auto simp add: shutdown_def)
  have log: "teardownLog (fst (shutdown env st)) =
           teardownLog st @ concat (map (sessionTeardown \<circ> snd) (activeSessions st))
             @ (if activeStdioServer st then [StdioServerClose] else [])"
    unfolding sh by (simp add: Let_def drainSessions_log)
  have once: "count_list (drop (length (teardownLog st)) (teardownLog (fst (shutdown env st))))
                 (TransportClose state) = 1 \<and>
               count_list (drop (length (teardownLog st)) (teardownLog (fst (shutdown env st))))
                 (ServerClose state) = 1"
    if "distinct (map snd (activeSessions st))" "state \<in> snd ` set (activeSessions st)" for state
    unfolding log using that
    by (simp add: count_teardown count_list_distinct)
  show ?thesis
    using once log unfolding sh
    by (simp add: Let_def drainSessions_table empty count_teardown)
qed

text \<open>The theorem at two registered sessions, with every close call rejecting.\<close>

theorem shutdown_drains_witness:
  "activeHttpServer twoSessions \<and>
   httpClose (environment (answered None) True CloseCompleted) = CloseCompleted \<and>
   distinct (map snd (activeSessions twoSessions)) \<and>
   snd (shutdown (environment (answered None) True CloseCompleted) twoSessions) = Exited 0 \<and>
   activeSessions (fst (shutdown (environment (answered None) True CloseCompleted) twoSessions)) = [] \<and>
   teardownLog (fst (shutdown (environment (answered None) True CloseCompleted) twoSessions)) =
     [TransportClose 0, ServerClose 0, TransportClose 1, ServerClose 1, StdioServerClose] \<and>
   count_list (drop 0 (teardownLog (fst (shutdown (environment (answered None) True CloseCompleted)
     twoSessions)))) (TransportClose 1) = 1 \<and>
   count_list (drop 0 (teardownLog (fst (shutdown (environment (answered None) True CloseCompleted)
     twoSessions)))) (ServerClose 1) = 1"
proof -
  have h: "activeHttpServer twoSessions \<longrightarrow>
      httpClose (environment (answered None) True CloseCompleted) = CloseCompleted"
    by (simp add: environment_def)
  have st: "activeSessions twoSessions = [(''s1'', 0), (''s2'', 1)]" "teardownLog twoSessions = []"
      "activeStdioServer twoSessions"
    by (simp_all add: twoSessions_def)
  have c: "activeHttpServer twoSessions"
      "httpClose (environment (answered None) True CloseCompleted) = CloseCompleted"
    by (simp_all add: twoSessions_def environment_def)
  have d: "distinct (map snd (activeSessions twoSessions))"
      "1 \<in> snd ` set (activeSessions twoSessions)"
    by (simp_all add: st)
  note T = shutdown_drains[OF h, of 1]
  note once = T[THEN conjunct2, THEN conjunct2, THEN conjunct2, THEN conjunct2, THEN conjunct2,
      rule_format, OF d]
  have l: "teardownLog (fst (shutdown (environment (answered None) True CloseCompleted) twoSessions)) =
     [TransportClose 0, ServerClose 0, TransportClose 1, ServerClose 1, StdioServerClose]"
    using T[THEN conjunct2, THEN conjunct2, THEN conjunct1] st by (simp add: sessionTeardown_def)
  show ?thesis
    using c d(1) T[THEN conjunct1] T[THEN conjunct2, THEN conjunct1] l once st(2)
    by simp
qed

text \<open>
  Claim C8 as stated holds for every run of \<^verbatim>\<open>shutdown\<close>. The loop comes after the
  \<^verbatim>\<open>await\<close> of the close of the HTTP server. When that close reports an error the promise
  of \<^verbatim>\<open>shutdown\<close> rejects there, and while its callback has not been called \<^verbatim>\<open>shutdown\<close>
  waits there: in both cases the session stays in the table and none of its close calls is
  made.
\<close>

theorem shutdown_rejected_drains_nothing:
  "activeSessions oneSession = [(''s1'', 0)] \<and>
   snd (shutdown (environment (answered None) False CloseError) oneSession) = Rejected \<and>
   activeSessions (fst (shutdown (environment (answered None) False CloseError) oneSession))
     = [(''s1'', 0)] \<and>
   teardownLog (fst (shutdown (environment (answered None) False CloseError) oneSession)) = [] \<and>
   snd (shutdown (environment (answered None) False ClosePending) oneSession) = Pending \<and>
   activeSessions (fst (shutdown (environment (answered None) False ClosePending) oneSession))
     = [(''s1'', 0)] \<and>
   teardownLog (fst (shutdown (environment (answered None) False ClosePending) oneSession)) = []"
  by (simp add: shutdown_def oneSession_def environment_def)

text \<open>
  Claim C8 as stated has the teardown of each session invoked exactly once. The loop
  goes by entries: for a session that is in the table under two ids, both of its close
  calls are made twice.
\<close>

theorem shutdown_closes_shared_session_twice:
  "activeSessions sharedSession = [(''s1'', 0), (''s9'', 0)] \<and>
   snd (shutdown (environment (answered None) False CloseCompleted) sharedSession) = Exited 0 \<and>
   teardownLog (fst (shutdown (environment (answered None) False CloseCompleted) sharedSession)) =
     [TransportClose 0, ServerClose 0, TransportClose 0, ServerClose 0] \<and>
   count_list (teardownLog (fst (shutdown (environment (answered None) False CloseCompleted)
     sharedSession))) (TransportClose 0) = 2 \<and>
   count_list (teardownLog (fst (shutdown (environment (answered None) False CloseCompleted)
     sharedSession))) (ServerClose 0) = 2"
  by (simp add: shutdown_def sharedSession_def environment_def Map_delete_def)

end
